theory Spec2Isabelle
  imports Main "HOL-Library.Word"
begin

section \<open>Values shared by the protocol client and the configuration loader\<close>

text \<open>
  Python \<open>bytes\<close> are lists of \<open>char\<close> (a \<open>char\<close> is one byte). A Python \<open>str\<close> is
  represented by its UTF-8 encoding, again a list of \<open>char\<close>: \<open>bytes.decode("utf-8")\<close>
  then checks that the bytes are well-formed UTF-8 and returns them, and \<open>str.encode()\<close> is
  the identity. The client only compares a \<open>str\<close> with ASCII literals and ASCII character
  classes, and a byte below 128 of a UTF-8 text is always an ASCII character of its own, so
  these operations agree on the two representations.
\<close>

datatype py_error =
    AssertionError string      \<comment> \<open>raised by \<open>none_throws\<close>, with its message\<close>
  | UnicodeDecodeError         \<comment> \<open>raised by \<open>bytes.decode("utf-8")\<close>\<close>
  | PortNotOpenError           \<comment> \<open>raised by the transport when a closed port is used\<close>
  | UnexpectedResponse string  \<comment> \<open>\<open>mariner.exceptions.UnexpectedResponse\<close>, with the raw reply\<close>
  | NameError string           \<comment> \<open>a name that is bound nowhere, with the name\<close>
  | TypeError
  | ValueError
  | OverflowError
  | OSError

definition byte :: "char \<Rightarrow> nat" where
  "byte c = of_char c"

definition cont :: "char \<Rightarrow> bool" where
  "cont c = (0x80 \<le> byte c \<and> byte c \<le> 0xBF)"

definition between :: "nat \<Rightarrow> char \<Rightarrow> nat \<Rightarrow> bool" where
  "between lo c hi = (lo \<le> byte c \<and> byte c \<le> hi)"

text \<open>
  Well-formed UTF-8 as \<open>bytes.decode("utf-8")\<close> accepts it in strict mode: shortest
  encodings only, no surrogates, nothing above U+10FFFF.
\<close>

fun utf8_valid :: "string \<Rightarrow> bool" where
  "utf8_valid [] = True"
| "utf8_valid (c # cs) =
     (if byte c < 0x80 then utf8_valid cs
      else if between 0xC2 c 0xDF then
        (case cs of c1 # r \<Rightarrow> cont c1 \<and> utf8_valid r | _ \<Rightarrow> False)
      else if between 0xE0 c 0xEF then
        (case cs of c1 # c2 # r \<Rightarrow>
           between (if byte c = 0xE0 then 0xA0 else 0x80) c1 (if byte c = 0xED then 0x9F else 0xBF)
           \<and> cont c2 \<and> utf8_valid r
         | _ \<Rightarrow> False)
      else if between 0xF0 c 0xF4 then
        (case cs of c1 # c2 # c3 # r \<Rightarrow>
           between (if byte c = 0xF0 then 0x90 else 0x80) c1 (if byte c = 0xF4 then 0x8F else 0xBF)
           \<and> cont c2 \<and> cont c3 \<and> utf8_valid r
         | _ \<Rightarrow> False)
      else False)"

definition decode_utf8 :: "string \<Rightarrow> py_error + string" where
  "decode_utf8 raw = (if utf8_valid raw then Inr raw else Inl UnicodeDecodeError)"

section \<open>The transport\<close>

text \<open>
  Modelled from the spec: the transport (\<open>serial.Serial\<close>) is an external collaborator of
  which the source has only the calls. Its contract is the one of section 6: replies are
  newline-terminated, and \<open>readline\<close> reads up to and including the terminator or, at the
  timeout, returns whatever is available, possibly nothing or a line without terminator.
  \<open>in_buf\<close> holds the bytes that arrive within the timeout; \<open>write_calls\<close> records every
  call of \<open>write\<close> with its argument, as the mock of the tests does. A closed port refuses
  \<open>write\<close> and \<open>readline\<close>, as the port of pyserial does.
\<close>

record serial =
  is_open :: bool
  write_calls :: "string list"
  in_buf :: string

definition newline :: char where
  "newline = CHR 0x0A"

fun split_line :: "string \<Rightarrow> string \<times> string" where
  "split_line [] = ([], [])"
| "split_line (c # cs) =
     (if c = newline then ([c], cs)
      else (case split_line cs of (l, r) \<Rightarrow> (c # l, r)))"

definition serial_write :: "serial \<Rightarrow> string \<Rightarrow> (py_error + unit) \<times> serial" where
  "serial_write p d =
     (let p' = p\<lparr>write_calls := write_calls p @ [d]\<rparr>
      in if is_open p then (Inr (), p') else (Inl PortNotOpenError, p'))"

definition serial_readline :: "serial \<Rightarrow> (py_error + string) \<times> serial" where
  "serial_readline p =
     (if is_open p
      then (case split_line (in_buf p) of (l, r) \<Rightarrow> (Inr l, p\<lparr>in_buf := r\<rparr>))
      else (Inl PortNotOpenError, p))"

definition serial_close :: "serial \<Rightarrow> serial" where
  "serial_close p = p\<lparr>is_open := False\<rparr>"

section \<open>The protocol client (\<open>mars.py\<close>)\<close>

record elegoo_mars =
  serial_port :: "serial option"

definition new_client :: elegoo_mars where
  "new_client = \<lparr>serial_port = None\<rparr>"

text \<open>
  \<open>open\<close> binds the handle that \<open>serial.Serial(...)\<close> returns: a port on the device, open.
  The device (what it will send) is the argument \<open>dev\<close>.
\<close>

definition open_port :: "string \<Rightarrow> elegoo_mars \<Rightarrow> elegoo_mars" where
  "open_port dev c =
     c\<lparr>serial_port := Some \<lparr>is_open = True, write_calls = [], in_buf = dev\<rparr>\<rparr>"

text \<open>\<open>close\<close> closes the handle and keeps it: \<open>_serial_port\<close> is not assigned.\<close>

definition close_port :: "elegoo_mars \<Rightarrow> (py_error + unit) \<times> elegoo_mars" where
  "close_port c =
     (case serial_port c of
        None \<Rightarrow> (Inl (AssertionError ''Unexpected `None`''), c)
      | Some p \<Rightarrow> (Inr (), c\<lparr>serial_port := Some (serial_close p)\<rparr>))"

definition not_opened_msg :: string where
  "not_opened_msg = ''Tried to communicate with serial port without opening it''"

definition send_and_read :: "elegoo_mars \<Rightarrow> string \<Rightarrow> (py_error + string) \<times> elegoo_mars" where
  "send_and_read c d =
     (case serial_port c of
        None \<Rightarrow> (Inl (AssertionError not_opened_msg), c)
      | Some p \<Rightarrow>
          (case serial_write p d of
             (Inl e, p1) \<Rightarrow> (Inl e, c\<lparr>serial_port := Some p1\<rparr>)
           | (Inr _, p1) \<Rightarrow>
               (case serial_readline p1 of
                  (Inl e, p2) \<Rightarrow> (Inl e, c\<lparr>serial_port := Some p2\<rparr>)
                | (Inr raw, p2) \<Rightarrow> (decode_utf8 raw, c\<lparr>serial_port := Some p2\<rparr>))))"

text \<open>
  \<open>re.search("^ok ([a-zA-Z0-9_.]+)\n$", data)\<close>, group 1. Without \<open>re.MULTILINE\<close>, \<open>^\<close> is
  the start of the text and \<open>$\<close> is its end or the place before a newline that ends it. The
  class does not contain the newline, so only the longest run of class characters can be
  followed by the \<open>\n\<close> of the pattern.
\<close>

definition token_char :: "char \<Rightarrow> bool" where
  "token_char c =
     (between 0x61 c 0x7A \<or> between 0x41 c 0x5A \<or> between 0x30 c 0x39
      \<or> c = CHR ''_'' \<or> c = CHR ''.'')"

fun strip_prefix :: "string \<Rightarrow> string \<Rightarrow> string option" where
  "strip_prefix [] s = Some s"
| "strip_prefix (p # ps) [] = None"
| "strip_prefix (p # ps) (c # cs) = (if p = c then strip_prefix ps cs else None)"

definition search_firmware :: "string \<Rightarrow> string option" where
  "search_firmware data =
     (case strip_prefix ''ok '' data of
        None \<Rightarrow> None
      | Some r \<Rightarrow>
          (let t = takeWhile token_char r; rest = dropWhile token_char r
           in if t \<noteq> [] \<and> (rest = [newline] \<or> rest = [newline, newline])
              then Some t else None))"

definition invalid_status_msg :: string where
  "invalid_status_msg = ''Received invalid status response from printer''"

definition get_firmware_version :: "elegoo_mars \<Rightarrow> (py_error + string) \<times> elegoo_mars" where
  "get_firmware_version c =
     (case send_and_read c ''M4002'' of
        (Inl e, c') \<Rightarrow> (Inl e, c')
      | (Inr data, c') \<Rightarrow>
          (case search_firmware data of
             None \<Rightarrow> (Inl (AssertionError invalid_status_msg), c')
           | Some t \<Rightarrow> (Inr t, c')))"

definition get_state :: "elegoo_mars \<Rightarrow> (py_error + string) \<times> elegoo_mars" where
  "get_state c = send_and_read c ''M4000''"

subsection \<open>Number formatting\<close>

text \<open>
  A Python \<open>float\<close> is an IEEE 754 double: a sign bit, an exponent field of 11 bits and
  a fraction field of 52 bits. Every value of \<open>py_float\<close> is one double and every double is
  one such value. The exponent field 2047 holds the infinities (fraction 0) and the
  NaNs; the field 0 holds the zeros and the subnormal numbers.
\<close>

datatype py_float = Float (negative: bool) (biased_exp: "11 word") (fraction: "52 word")

definition is_finite :: "py_float \<Rightarrow> bool" where
  "is_finite x = (unat (biased_exp x) \<noteq> 2047)"

definition significand :: "py_float \<Rightarrow> nat" where
  "significand x =
     (if unat (biased_exp x) = 0 then unat (fraction x) else 2 ^ 52 + unat (fraction x))"

definition exponent :: "py_float \<Rightarrow> nat" where
  "exponent x = (if unat (biased_exp x) = 0 then 1 else unat (biased_exp x))"

text \<open>
  The magnitude of a finite double is \<open>significand * 2 ^ (exponent - 1075)\<close>, the exponent
  counted as an integer. As a fraction of natural numbers it is \<open>numer / denom\<close>, where the
  subtractions stop at 0: one of the two powers is 1.
\<close>

definition numer :: "py_float \<Rightarrow> nat" where
  "numer x = significand x * 2 ^ (exponent x - 1075)"

definition denom :: "py_float \<Rightarrow> nat" where
  "denom x = 2 ^ (1075 - exponent x)"

definition digit_char :: "nat \<Rightarrow> char" where
  "digit_char d = ''0123456789'' ! d"

function str_nat :: "nat \<Rightarrow> string" where
  "str_nat n = (if n < 10 then [digit_char n] else str_nat (n div 10) @ [digit_char (n mod 10)])"
  by pat_completeness auto
termination
  by (relation "measure id") auto

declare str_nat.simps [simp del]

text \<open>\<open>str(i)\<close> of an \<open>int\<close>, as an f-string field without format gives it.\<close>

definition str_int :: "int \<Rightarrow> string" where
  "str_int i = (if i < 0 then ''-'' @ str_nat (nat (- i)) else str_nat (nat i))"

text \<open>The fraction \<open>n / d\<close> rounded to the nearest integer, a tie to the even one.\<close>

definition round_half_even :: "nat \<Rightarrow> nat \<Rightarrow> nat" where
  "round_half_even n d =
     (let q = n div d; r = n mod d
      in if 2 * r < d then q
         else if d < 2 * r then q + 1
         else if even q then q else q + 1)"

text \<open>
  The format \<open>.1f\<close> of a float. A NaN is written \<open>nan\<close> and an infinity \<open>inf\<close> or
  \<open>-inf\<close>. A finite double is written as the sign of the sign bit, then the magnitude
  correctly rounded to tenths (ties to even on the exact value), with one digit after
  the point.
\<close>

definition format_1f :: "py_float \<Rightarrow> string" where
  "format_1f x =
     (if is_finite x then
        (let t = round_half_even (numer x * 10) (denom x)
         in (if negative x then ''-'' else []) @ str_nat (t div 10) @ ''.''
            @ [digit_char (t mod 10)])
      else if unat (fraction x) = 0 then (if negative x then ''-inf'' else ''inf'')
      else ''nan'')"

text \<open>\<open>move_to\<close> declares its argument a \<open>float\<close>.\<close>

definition move_to :: "elegoo_mars \<Rightarrow> py_float \<Rightarrow> (py_error + string) \<times> elegoo_mars" where
  "move_to c z_pos = send_and_read c (''G0 Z'' @ format_1f z_pos)"

subsection \<open>Numbers that are an \<open>int\<close> or a \<open>float\<close>\<close>






subsection \<open>Operations that the tests call and \<open>mars.py\<close> does not define\<close>




datatype printer_state = IDLE | STARTING_PRINT | PRINTING | PAUSED | UNKNOWN









section \<open>The configuration loader (\<open>config.py\<close>)\<close>

text \<open>
  The values that \<open>toml.loads\<close> builds. A table is a \<open>dict\<close>, kept as an association list
  and read with \<open>map_of\<close>; an array is a \<open>list\<close>. A float and a date-time keep the text
  they have in the document.
\<close>

datatype toml =
    TStr string
  | TInt int
  | TBool bool
  | TFloat string
  | TDatetime string
  | TArray "toml list"
  | TTable "(string \<times> toml) list"

type_synonym config = "(string \<times> toml) list"

text \<open>
  Python's conversions where the getters can reach them and this development does not fix
  their result: \<open>str\<close> of a float, a date-time, an array or a table, \<open>int\<close> of a \<open>str\<close>
  (\<open>None\<close> when it raises \<open>ValueError\<close>) and of a float, and the truth value of a float.
\<close>

record builtins =
  str_other :: "toml \<Rightarrow> string"
  int_of_str :: "string \<Rightarrow> int option"
  int_of_float :: "string \<Rightarrow> py_error + int"
  float_nonzero :: "string \<Rightarrow> bool"

definition py_str :: "builtins \<Rightarrow> toml \<Rightarrow> string" where
  "py_str B v =
     (case v of
        TStr s \<Rightarrow> s
      | TInt i \<Rightarrow> str_int i
      | TBool b \<Rightarrow> (if b then ''True'' else ''False'')
      | _ \<Rightarrow> str_other B v)"

text \<open>\<open>int(x)\<close>, where \<open>x\<close> is a value of the document or \<open>None\<close>.\<close>

definition py_int :: "builtins \<Rightarrow> toml option \<Rightarrow> py_error + int" where
  "py_int B x =
     (case x of
        None \<Rightarrow> Inl TypeError
      | Some (TInt i) \<Rightarrow> Inr i
      | Some (TBool b) \<Rightarrow> Inr (if b then 1 else 0)
      | Some (TStr s) \<Rightarrow> (case int_of_str B s of None \<Rightarrow> Inl ValueError | Some i \<Rightarrow> Inr i)
      | Some (TFloat f) \<Rightarrow> int_of_float B f
      | Some _ \<Rightarrow> Inl TypeError)"

text \<open>\<open>bool(x)\<close>, where \<open>x\<close> is a value of the document or \<open>None\<close>.\<close>

definition py_bool :: "builtins \<Rightarrow> toml option \<Rightarrow> bool" where
  "py_bool B x =
     (case x of
        None \<Rightarrow> False
      | Some (TStr s) \<Rightarrow> s \<noteq> []
      | Some (TInt i) \<Rightarrow> i \<noteq> 0
      | Some (TBool b) \<Rightarrow> b
      | Some (TFloat f) \<Rightarrow> float_nonzero B f
      | Some (TDatetime d) \<Rightarrow> True
      | Some (TArray xs) \<Rightarrow> xs \<noteq> []
      | Some (TTable kvs) \<Rightarrow> kvs \<noteq> [])"

text \<open>\<open>d.get(key, default)\<close>\<close>

definition get_or :: "(string \<times> toml) list \<Rightarrow> string \<Rightarrow> toml \<Rightarrow> toml" where
  "get_or d k dflt = (case map_of d k of None \<Rightarrow> dflt | Some v \<Rightarrow> v)"

subsection \<open>Finding and loading the file\<close>

text \<open>
  The file system as far as the search looks at it: what is at an absolute path, a
  directory or something else with a content. A relative path is resolved against the
  working directory \<open>cwd\<close>.
\<close>

datatype fs_entry = Directory | File string

type_synonym filesystem = "string \<Rightarrow> fs_entry option"

definition absolute :: "string \<Rightarrow> string \<Rightarrow> string" where
  "absolute cwd p =
     (case p of
        CHR ''/'' # _ \<Rightarrow> p
      | _ \<Rightarrow> (if cwd \<noteq> [] \<and> last cwd = CHR ''/'' then cwd @ p else cwd @ ''/'' @ p))"

definition potential_paths :: "string list" where
  "potential_paths = [''config.toml'', ''~/.mariner/config.toml'', ''/etc/mariner/config.toml'']"

definition exists_not_dir :: "filesystem \<Rightarrow> string \<Rightarrow> string \<Rightarrow> bool" where
  "exists_not_dir fs cwd p =
     (case fs (absolute cwd p) of None \<Rightarrow> False | Some Directory \<Rightarrow> False | Some (File _) \<Rightarrow> True)"

definition get_config_filename :: "filesystem \<Rightarrow> string \<Rightarrow> string option" where
  "get_config_filename fs cwd =
     (case filter (exists_not_dir fs cwd) potential_paths of
        [] \<Rightarrow> None
      | p # _ \<Rightarrow> Some (absolute cwd p))"

text \<open>
  \<open>_get_config\<close>, evaluated once (the \<open>lru_cache\<close> keeps that value). The parser
  \<open>toml.loads\<close> is the argument \<open>loads\<close>; it may raise.
\<close>

definition get_config ::
  "(string \<Rightarrow> py_error + config) \<Rightarrow> filesystem \<Rightarrow> string \<Rightarrow> py_error + config" where
  "get_config loads fs cwd =
     (case get_config_filename fs cwd of
        None \<Rightarrow> Inr []
      | Some filename \<Rightarrow>
          (case fs filename of
             Some (File toml_string) \<Rightarrow> loads toml_string
           | _ \<Rightarrow> Inl OSError))"

subsection \<open>The getters\<close>

text \<open>
  \<open>Path(s)\<close> on a POSIX system, as the text \<open>str(Path(s))\<close>: the components between
  slashes without the empty ones and the dots, joined by single slashes, after the root.
  The root is \<open>/\<close> for a text that begins with a slash, and \<open>//\<close> when it begins with
  exactly two. The path without root and components is \<open>.\<close>.
\<close>

fun split_slash :: "string \<Rightarrow> string list" where
  "split_slash [] = [[]]"
| "split_slash (c # cs) =
     (if c = CHR ''/'' then [] # split_slash cs
      else (case split_slash cs of [] \<Rightarrow> [[c]] | x # xs \<Rightarrow> (c # x) # xs))"

fun join_slash :: "string list \<Rightarrow> string" where
  "join_slash [] = []"
| "join_slash [x] = x"
| "join_slash (x # y # ys) = x @ ''/'' @ join_slash (y # ys)"

definition path_root :: "string \<Rightarrow> string" where
  "path_root s =
     (case s of
        CHR ''/'' # CHR ''/'' # CHR ''/'' # _ \<Rightarrow> ''/''
      | CHR ''/'' # CHR ''/'' # _ \<Rightarrow> ''//''
      | CHR ''/'' # _ \<Rightarrow> ''/''
      | _ \<Rightarrow> [])"

definition posix_path :: "string \<Rightarrow> string" where
  "posix_path s =
     (let parts = filter (\<lambda>x. x \<noteq> [] \<and> x \<noteq> ''.'') (split_slash s)
      in if path_root s = [] \<and> parts = [] then ''.'' else path_root s @ join_slash parts)"

definition get_files_directory :: "builtins \<Rightarrow> config \<Rightarrow> string" where
  "get_files_directory B config =
     posix_path (py_str B (get_or config ''files_directory'' (TStr ''/mnt/usb_share'')))"

definition get_printer_display_name :: "builtins \<Rightarrow> config \<Rightarrow> string option" where
  "get_printer_display_name B config =
     (case map_of config ''printer'' of
        Some (TTable printer_config) \<Rightarrow>
          (case map_of printer_config ''display_name'' of
             None \<Rightarrow> None
           | Some display_name \<Rightarrow> Some (py_str B display_name))
      | _ \<Rightarrow> None)"

definition get_printer_serial_port :: "builtins \<Rightarrow> config \<Rightarrow> string" where
  "get_printer_serial_port B config =
     (let default_port = TStr ''/dev/serial0''
      in case map_of config ''printer'' of
           Some (TTable printer_config) \<Rightarrow> py_str B (get_or printer_config ''serial_port'' default_port)
         | _ \<Rightarrow> py_str B default_port)"

definition get_printer_baudrate :: "builtins \<Rightarrow> config \<Rightarrow> py_error + int" where
  "get_printer_baudrate B config =
     (let default_baudrate = 115200
      in case map_of config ''printer'' of
           Some (TTable printer_config) \<Rightarrow>
             py_int B (Some (get_or printer_config ''baudrate'' (TInt default_baudrate)))
         | _ \<Rightarrow> Inr default_baudrate)"

definition get_relay_pin :: "builtins \<Rightarrow> config \<Rightarrow> py_error + int option" where
  "get_relay_pin B config =
     (case map_of config ''relay_board'' of
        Some (TTable printer_config) \<Rightarrow>
          map_sum id Some (py_int B (map_of printer_config ''relay_pin''))
      | _ \<Rightarrow> Inr None)"

definition get_relay_initial_value :: "builtins \<Rightarrow> config \<Rightarrow> py_error + int option" where
  "get_relay_initial_value B config =
     (case map_of config ''relay_board'' of
        Some (TTable printer_config) \<Rightarrow>
          map_sum id Some (py_int B (map_of printer_config ''initial_value''))
      | _ \<Rightarrow> Inr None)"

definition get_relay_active_high :: "builtins \<Rightarrow> config \<Rightarrow> bool option" where
  "get_relay_active_high B config =
     (case map_of config ''relay_board'' of
        Some (TTable printer_config) \<Rightarrow> Some (py_bool B (map_of printer_config ''active_high''))
      | _ \<Rightarrow> None)"

definition get_http_host :: "builtins \<Rightarrow> config \<Rightarrow> string" where
  "get_http_host B config =
     (let default_host = TStr ''0.0.0.0''
      in case map_of config ''http'' of
           Some (TTable http_config) \<Rightarrow> py_str B (get_or http_config ''host'' default_host)
         | _ \<Rightarrow> py_str B default_host)"

definition get_http_port :: "builtins \<Rightarrow> config \<Rightarrow> py_error + int" where
  "get_http_port B config =
     (let default_port = 5050
      in case map_of config ''http'' of
           Some (TTable http_config) \<Rightarrow>
             py_int B (Some (get_or http_config ''port'' (TInt default_port)))
         | _ \<Rightarrow> Inr default_port)"

definition get_cache_directory :: "builtins \<Rightarrow> config \<Rightarrow> string" where
  "get_cache_directory B config =
     (let default_directory = TStr ''/tmp/mariner/''
      in case map_of config ''cache'' of
           Some (TTable cache_config) \<Rightarrow> py_str B (get_or cache_config ''directory'' default_directory)
         | _ \<Rightarrow> py_str B default_directory)"

text \<open>
  The four home-assistant getters bind the section to \<open>ha_config\<close> and then evaluate
  \<open>printer_config.get(...)\<close>. No \<open>printer_config\<close> is bound in their scope nor in the
  module (the other getters bind it as a local), so the evaluation raises \<open>NameError\<close>.
\<close>

definition get_ha_srv :: "builtins \<Rightarrow> config \<Rightarrow> py_error + string option" where
  "get_ha_srv B config =
     (case map_of config ''homeassistant'' of
        Some (TTable ha_config) \<Rightarrow> Inl (NameError ''printer_config'')
      | _ \<Rightarrow> Inr None)"

definition get_ha_usr :: "builtins \<Rightarrow> config \<Rightarrow> py_error + string option" where
  "get_ha_usr B config =
     (case map_of config ''homeassistant'' of
        Some (TTable ha_config) \<Rightarrow> Inl (NameError ''printer_config'')
      | _ \<Rightarrow> Inr None)"

definition get_ha_pass :: "builtins \<Rightarrow> config \<Rightarrow> py_error + string option" where
  "get_ha_pass B config =
     (case map_of config ''homeassistant'' of
        Some (TTable ha_config) \<Rightarrow> Inl (NameError ''printer_config'')
      | _ \<Rightarrow> Inr None)"

definition get_ha_topic :: "builtins \<Rightarrow> config \<Rightarrow> py_error + string option" where
  "get_ha_topic B config =
     (case map_of config ''homeassistant'' of
        Some (TTable ha_config) \<Rightarrow> Inl (NameError ''printer_config'')
      | _ \<Rightarrow> Inr None)"

section \<open>Properties of the exchange\<close>

lemma split_line_butlast: "newline \<notin> set (butlast (fst (split_line s)))"
  by (induction s) (auto split: prod.splits)

lemma split_line_no_newline: "newline \<notin> set s \<Longrightarrow> split_line s = (s, [])"
  by (induction s) auto

lemma strip_prefix_Some: "strip_prefix p s = Some r \<longleftrightarrow> s = p @ r"
  by (induction p s rule: strip_prefix.induct) auto

lemma run_then_stop:
  assumes "\<forall>c\<in>set t. P c" "\<not> P x"
  shows "takeWhile P (t @ x # xs) = t" "dropWhile P (t @ x # xs) = x # xs"
  using assms by (induction t) auto

text \<open>What a successful exchange has done: the port was open, the command was written,
  and the text is the first line of the input, which is well-formed UTF-8.\<close>

lemma send_and_read_Inr:
  assumes "send_and_read c d = (Inr data, c')"
  shows "\<exists>p. serial_port c = Some p \<and> is_open p \<and> data = fst (split_line (in_buf p))
           \<and> utf8_valid data
           \<and> c' = c\<lparr>serial_port :=
                  Some (p\<lparr>write_calls := write_calls p @ [d], in_buf := snd (split_line (in_buf p))\<rparr>)\<rparr>"
proof -
  obtain p where p: "serial_port c = Some p"
    using assms by (cases "serial_port c") (simp_all add: send_and_read_def)
  have op: "is_open p"
    using assms p by (cases "is_open p") (simp_all add: send_and_read_def serial_write_def)
  obtain l r where lr: "split_line (in_buf p) = (l, r)"
    by (cases "split_line (in_buf p)")
  have eq: "send_and_read c d =
      (decode_utf8 l, c\<lparr>serial_port := Some (p\<lparr>write_calls := write_calls p @ [d], in_buf := r\<rparr>)\<rparr>)"
    using p op lr by (simp add: send_and_read_def serial_write_def serial_readline_def)
  have "utf8_valid l" "data = l"
    using assms unfolding eq decode_utf8_def by (simp_all split: if_splits)
  then show ?thesis
    using assms p op lr unfolding eq by simp
qed

lemma reply_single_line:
  assumes "send_and_read c d = (Inr data, c')"
  shows "data \<noteq> a @ [newline, newline]"
proof
  assume "data = a @ [newline, newline]"
  then have "newline \<in> set (butlast data)"
    by (simp add: butlast_append)
  moreover from send_and_read_Inr [OF assms]
  obtain p :: serial where "data = fst (split_line (in_buf p))"
    by blast
  ultimately show False
    using split_line_butlast by metis
qed

section \<open>The firmware version\<close>

lemma not_token_newline: "\<not> token_char newline"
  by (simp add: token_char_def between_def byte_def newline_def)

lemma search_firmware_Some:
  "search_firmware data = Some t \<longleftrightarrow>
     t \<noteq> [] \<and> list_all token_char t \<and>
     (data = ''ok '' @ t @ [newline] \<or> data = ''ok '' @ t @ [newline, newline])"
proof
  assume "search_firmware data = Some t"
  then obtain r where r: "data = ''ok '' @ r"
    and t: "t = takeWhile token_char r" "t \<noteq> []"
    and rest: "dropWhile token_char r = [newline] \<or> dropWhile token_char r = [newline, newline]"
    by (auto simp: search_firmware_def Let_def strip_prefix_Some split: option.splits if_splits)
  have "r = t @ dropWhile token_char r"
    unfolding t by (rule takeWhile_dropWhile_id [symmetric])
  then have "r = t @ [newline] \<or> r = t @ [newline, newline]"
    using rest by metis
  moreover have "list_all token_char t"
    unfolding t list_all_iff using set_takeWhileD by metis
  ultimately show "t \<noteq> [] \<and> list_all token_char t \<and>
     (data = ''ok '' @ t @ [newline] \<or> data = ''ok '' @ t @ [newline, newline])"
    using r t(2) by blast
next
  assume a: "t \<noteq> [] \<and> list_all token_char t \<and>
     (data = ''ok '' @ t @ [newline] \<or> data = ''ok '' @ t @ [newline, newline])"
  then obtain rest where rest: "data = ''ok '' @ (t @ newline # rest)" "rest = [] \<or> rest = [newline]"
    by auto
  have all: "\<forall>c\<in>set t. token_char c"
    using a by (simp add: list_all_iff)
  have "strip_prefix ''ok '' data = Some (t @ newline # rest)"
    unfolding strip_prefix_Some using rest by simp
  then show "search_firmware data = Some t"
    using a rest(2) run_then_stop [OF all not_token_newline]
    by (auto simp: search_firmware_def Let_def)
qed

text \<open>
  Claim C3. \<open>get_firmware_version\<close> sends \<open>M4002\<close>. When the exchange delivers the reply
  line \<open>data\<close>, the call returns the token \<open>t\<close> exactly when \<open>data\<close> is \<open>ok t\<close> with its
  newline, where \<open>t\<close> is a non-empty run of ASCII letters, digits, dots and underscores;
  for a reply line of no such shape it raises the failure of an invalid response (the
  assertion of \<open>none_throws\<close> with the message of the source).
\<close>

theorem get_firmware_version_reply:
  assumes "send_and_read c ''M4002'' = (Inr data, c')"
  shows "(get_firmware_version c = (Inr t, c') \<longleftrightarrow>
            t \<noteq> [] \<and> list_all token_char t \<and> data = ''ok '' @ t @ [newline])
       \<and> ((\<nexists>u. u \<noteq> [] \<and> list_all token_char u \<and> data = ''ok '' @ u @ [newline]) \<longrightarrow>
            get_firmware_version c = (Inl (AssertionError invalid_status_msg), c'))"
proof -
  have two: "data \<noteq> ''ok '' @ u @ [newline, newline]" for u
    using reply_single_line [OF assms, of "''ok '' @ u"] by simp
  have found: "search_firmware data = Some u \<longleftrightarrow>
          u \<noteq> [] \<and> list_all token_char u \<and> data = ''ok '' @ u @ [newline]" for u
    using search_firmware_Some [of data u] two [of u] by blast
  show ?thesis
  proof (cases "search_firmware data")
    case None
    then have "get_firmware_version c = (Inl (AssertionError invalid_status_msg), c')"
      using assms by (simp add: get_firmware_version_def)
    moreover have "\<not> (u \<noteq> [] \<and> list_all token_char u \<and> data = ''ok '' @ u @ [newline])" for u
      using None found [of u] by simp
    ultimately show ?thesis
      by simp
  next
    case (Some u)
    then have "get_firmware_version c = (Inr u, c')"
      using assms by (simp add: get_firmware_version_def)
    moreover have "u \<noteq> [] \<and> list_all token_char u \<and> data = ''ok '' @ u @ [newline]"
      using Some found [of u] by simp
    ultimately show ?thesis
      by auto
  qed
qed

theorem get_firmware_version_reply_witness:
  "send_and_read (open_port (''ok V4.3.4_LCDC'' @ [newline]) new_client) ''M4002'' =
     (Inr (''ok V4.3.4_LCDC'' @ [newline]),
      \<lparr>serial_port = Some \<lparr>is_open = True, write_calls = [''M4002''], in_buf = []\<rparr>\<rparr>)
   \<and> get_firmware_version (open_port (''ok V4.3.4_LCDC'' @ [newline]) new_client) =
     (Inr ''V4.3.4_LCDC'',
      \<lparr>serial_port = Some \<lparr>is_open = True, write_calls = [''M4002''], in_buf = []\<rparr>\<rparr>)"
proof -
  have h: "send_and_read (open_port (''ok V4.3.4_LCDC'' @ [newline]) new_client) ''M4002'' =
     (Inr (''ok V4.3.4_LCDC'' @ [newline]),
      \<lparr>serial_port = Some \<lparr>is_open = True, write_calls = [''M4002''], in_buf = []\<rparr>\<rparr>)"
    by (simp add: send_and_read_def open_port_def new_client_def serial_write_def
        serial_readline_def decode_utf8_def newline_def byte_def)
  have t: "list_all token_char ''V4.3.4_LCDC''"
    by (simp add: token_char_def between_def byte_def)
  show ?thesis
    using h t get_firmware_version_reply [OF h, of "''V4.3.4_LCDC''"] by simp
qed

section \<open>The exchange, case by case\<close>

lemma send_and_read_open:
  assumes "serial_port c = Some p" "is_open p" "split_line (in_buf p) = (l, rest)"
  shows "send_and_read c d =
     (if utf8_valid l then Inr l else Inl UnicodeDecodeError,
      c\<lparr>serial_port := Some (p\<lparr>write_calls := write_calls p @ [d], in_buf := rest\<rparr>)\<rparr>)"
  using assms
  by (simp add: send_and_read_def serial_write_def serial_readline_def decode_utf8_def)

lemma send_and_read_closed:
  assumes "serial_port c = Some p" "\<not> is_open p"
  shows "send_and_read c d =
     (Inl PortNotOpenError, c\<lparr>serial_port := Some (p\<lparr>write_calls := write_calls p @ [d]\<rparr>)\<rparr>)"
  using assms by (simp add: send_and_read_def serial_write_def)

lemma send_and_read_None:
  assumes "serial_port c = None"
  shows "send_and_read c d = (Inl (AssertionError not_opened_msg), c)"
  using assms by (simp add: send_and_read_def)

text \<open>
  Claim C7. The result of \<open>get_firmware_version\<close> is a function of the reply text: two
  invocations, on any two clients, whose exchanges deliver the same reply text return the
  same result, whatever else the two clients hold and whatever was called before.
\<close>

theorem get_firmware_version_pure:
  assumes "send_and_read c1 ''M4002'' = (Inr data, c1')"
      and "send_and_read c2 ''M4002'' = (Inr data, c2')"
  shows "fst (get_firmware_version c1) = fst (get_firmware_version c2)"
  using assms by (simp add: get_firmware_version_def split: option.splits)

theorem get_firmware_version_pure_witness:
  "send_and_read (open_port (''ok V4.3.4_LCDC'' @ [newline] @ ''ok V4.3.4_LCDC'' @ [newline]) new_client) ''M4002'' =
     (Inr (''ok V4.3.4_LCDC'' @ [newline]),
      \<lparr>serial_port = Some \<lparr>is_open = True, write_calls = [''M4002''],
                             in_buf = ''ok V4.3.4_LCDC'' @ [newline]\<rparr>\<rparr>)
   \<and> send_and_read \<lparr>serial_port = Some \<lparr>is_open = True, write_calls = [''M4002''],
                             in_buf = ''ok V4.3.4_LCDC'' @ [newline]\<rparr>\<rparr> ''M4002'' =
     (Inr (''ok V4.3.4_LCDC'' @ [newline]),
      \<lparr>serial_port = Some \<lparr>is_open = True, write_calls = [''M4002'', ''M4002''], in_buf = []\<rparr>\<rparr>)
   \<and> fst (get_firmware_version
        (open_port (''ok V4.3.4_LCDC'' @ [newline] @ ''ok V4.3.4_LCDC'' @ [newline]) new_client)) =
     fst (get_firmware_version \<lparr>serial_port = Some \<lparr>is_open = True, write_calls = [''M4002''],
                             in_buf = ''ok V4.3.4_LCDC'' @ [newline]\<rparr>\<rparr>)"
proof -
  have h1: "send_and_read (open_port (''ok V4.3.4_LCDC'' @ [newline] @ ''ok V4.3.4_LCDC'' @ [newline]) new_client) ''M4002'' =
     (Inr (''ok V4.3.4_LCDC'' @ [newline]),
      \<lparr>serial_port = Some \<lparr>is_open = True, write_calls = [''M4002''],
                             in_buf = ''ok V4.3.4_LCDC'' @ [newline]\<rparr>\<rparr>)"
    by (simp add: send_and_read_def open_port_def new_client_def serial_write_def
        serial_readline_def decode_utf8_def newline_def byte_def)
  have h2: "send_and_read \<lparr>serial_port = Some \<lparr>is_open = True, write_calls = [''M4002''],
                             in_buf = ''ok V4.3.4_LCDC'' @ [newline]\<rparr>\<rparr> ''M4002'' =
     (Inr (''ok V4.3.4_LCDC'' @ [newline]),
      \<lparr>serial_port = Some \<lparr>is_open = True, write_calls = [''M4002'', ''M4002''], in_buf = []\<rparr>\<rparr>)"
    by (simp add: send_and_read_def serial_write_def
        serial_readline_def decode_utf8_def newline_def byte_def)
  show ?thesis
    using h1 h2 get_firmware_version_pure [OF h1 h2] by simp
qed

section \<open>Commands outside an open session\<close>

text \<open>
  Claim C4, as amended. A command method (\<open>get_firmware_version\<close>, \<open>get_state\<close>,
  \<open>move_to\<close>) invoked before \<open>open\<close> fails with the assertion that the port was not
  opened and leaves the client as it was: nothing reaches a transport. \<open>close\<close> closes the
  handle and keeps it bound, so a command method invoked after \<open>close\<close> passes that check
  and calls \<open>write\<close> on the closed handle; the failure is the one of the transport.
\<close>

theorem command_outside_session:
  "(serial_port c = None \<longrightarrow>
      get_firmware_version c = (Inl (AssertionError not_opened_msg), c)
      \<and> get_state c = (Inl (AssertionError not_opened_msg), c)
      \<and> move_to c z = (Inl (AssertionError not_opened_msg), c))
   \<and> (serial_port c = Some p \<longrightarrow>
      snd (close_port c) = c\<lparr>serial_port := Some (p\<lparr>is_open := False\<rparr>)\<rparr>
      \<and> get_firmware_version (snd (close_port c)) =
          (Inl PortNotOpenError,
           c\<lparr>serial_port := Some (p\<lparr>is_open := False, write_calls := write_calls p @ [''M4002'']\<rparr>)\<rparr>)
      \<and> get_state (snd (close_port c)) =
          (Inl PortNotOpenError,
           c\<lparr>serial_port := Some (p\<lparr>is_open := False, write_calls := write_calls p @ [''M4000'']\<rparr>)\<rparr>)
      \<and> move_to (snd (close_port c)) z =
          (Inl PortNotOpenError,
           c\<lparr>serial_port := Some (p\<lparr>is_open := False,
                write_calls := write_calls p @ [''G0 Z'' @ format_1f z]\<rparr>)\<rparr>))"
proof (intro conjI impI)
  assume n: "serial_port c = None"
  show "get_firmware_version c = (Inl (AssertionError not_opened_msg), c)"
    by (simp add: get_firmware_version_def send_and_read_None [OF n])
  show "get_state c = (Inl (AssertionError not_opened_msg), c)"
    by (simp add: get_state_def send_and_read_None [OF n])
  show "move_to c z = (Inl (AssertionError not_opened_msg), c)"
    by (simp add: move_to_def send_and_read_None [OF n])
next
  assume s: "serial_port c = Some p"
  show cl: "snd (close_port c) = c\<lparr>serial_port := Some (p\<lparr>is_open := False\<rparr>)\<rparr>"
    by (simp add: close_port_def serial_close_def s)
  have closed: "serial_port (snd (close_port c)) = Some (p\<lparr>is_open := False\<rparr>)"
     "\<not> is_open (p\<lparr>is_open := False\<rparr>)"
    by (simp_all add: cl)
  show "get_firmware_version (snd (close_port c)) =
          (Inl PortNotOpenError,
           c\<lparr>serial_port := Some (p\<lparr>is_open := False, write_calls := write_calls p @ [''M4002'']\<rparr>)\<rparr>)"
    by (simp add: get_firmware_version_def send_and_read_closed [OF closed])
  show "get_state (snd (close_port c)) =
          (Inl PortNotOpenError,
           c\<lparr>serial_port := Some (p\<lparr>is_open := False, write_calls := write_calls p @ [''M4000'']\<rparr>)\<rparr>)"
    by (simp add: get_state_def send_and_read_closed [OF closed])
  show "move_to (snd (close_port c)) z =
          (Inl PortNotOpenError,
           c\<lparr>serial_port := Some (p\<lparr>is_open := False,
                write_calls := write_calls p @ [''G0 Z'' @ format_1f z]\<rparr>)\<rparr>)"
    by (simp add: move_to_def send_and_read_closed [OF closed])
qed

text \<open>
  Claim C4 as stated fails after \<open>close\<close>: \<open>get_state\<close> on a client that was opened and
  closed does not fail with the not-opened assertion, and \<open>write\<close> has been called on the
  transport with the command.
\<close>

theorem command_after_close_counterexample:
  "fst (get_state (snd (close_port (open_port (''ok'' @ [newline]) new_client))))
     \<noteq> Inl (AssertionError not_opened_msg)
   \<and> map_option write_calls
        (serial_port (snd (get_state (snd (close_port (open_port (''ok'' @ [newline]) new_client))))))
     = Some [''M4000'']"
  by (simp add: get_state_def send_and_read_def close_port_def open_port_def new_client_def
      serial_close_def serial_write_def)

theorem command_outside_session_witness:
  "serial_port new_client = None
   \<and> get_state new_client = (Inl (AssertionError not_opened_msg), new_client)
   \<and> serial_port (open_port (''ok'' @ [newline]) new_client) =
       Some \<lparr>is_open = True, write_calls = [], in_buf = ''ok'' @ [newline]\<rparr>
   \<and> get_state (snd (close_port (open_port (''ok'' @ [newline]) new_client))) =
       (Inl PortNotOpenError,
        \<lparr>serial_port = Some \<lparr>is_open = False, write_calls = [''M4000''],
                               in_buf = ''ok'' @ [newline]\<rparr>\<rparr>)"
proof -
  have n: "serial_port new_client = None"
    by (simp add: new_client_def)
  have s: "serial_port (open_port (''ok'' @ [newline]) new_client) =
       Some \<lparr>is_open = True, write_calls = [], in_buf = ''ok'' @ [newline]\<rparr>"
    by (simp add: open_port_def new_client_def)
  have a: "get_state new_client = (Inl (AssertionError not_opened_msg), new_client)"
    using command_outside_session [where c = new_client and z = "Float False 0 0", THEN conjunct1] n
    by blast
  have b: "get_state (snd (close_port (open_port (''ok'' @ [newline]) new_client))) =
       (Inl PortNotOpenError,
        (open_port (''ok'' @ [newline]) new_client)\<lparr>serial_port :=
           Some (\<lparr>is_open = True, write_calls = [], in_buf = ''ok'' @ [newline]\<rparr>\<lparr>is_open := False,
             write_calls := write_calls \<lparr>is_open = True, write_calls = [],
                in_buf = ''ok'' @ [newline]\<rparr> @ [''M4000'']\<rparr>)\<rparr>)"
    using command_outside_session [where c = "open_port (''ok'' @ [newline]) new_client"
        and p = "\<lparr>is_open = True, write_calls = [], in_buf = ''ok'' @ [newline]\<rparr>"
        and z = "Float False 0 0", THEN conjunct2] s
    by blast
  show ?thesis
    using n s a unfolding b by (simp add: open_port_def new_client_def)
qed

section \<open>Validation of the reply\<close>

text \<open>
  Claim C5, as amended. \<open>get_state\<close> writes \<open>M4000\<close> and returns the reply line as raw
  text whenever it decodes, an \<open>ok\<close> line or not: it checks nothing, and neither does
  \<open>move_to\<close>, the other operation that returns the reply. Of the operations of
  \<open>mars.py\<close>, \<open>get_firmware_version\<close> is the one that validates the reply: it returns
  the token that the pattern finds, and its failure on a mismatch carries a fixed message,
  not the reply text.
\<close>

theorem get_state_returns_raw:
  assumes "serial_port c = Some p" "is_open p" "split_line (in_buf p) = (l, rest)" "utf8_valid l"
  shows "get_state c =
           (Inr l, c\<lparr>serial_port := Some (p\<lparr>write_calls := write_calls p @ [''M4000''],
                                               in_buf := rest\<rparr>)\<rparr>)
       \<and> move_to c z =
           (Inr l, c\<lparr>serial_port := Some (p\<lparr>write_calls := write_calls p @ [''G0 Z'' @ format_1f z],
                                               in_buf := rest\<rparr>)\<rparr>)
       \<and> get_firmware_version c =
           (case search_firmware l of
              None \<Rightarrow> Inl (AssertionError ''Received invalid status response from printer'')
            | Some t \<Rightarrow> Inr t,
            c\<lparr>serial_port := Some (p\<lparr>write_calls := write_calls p @ [''M4002''],
                                      in_buf := rest\<rparr>)\<rparr>)"
  using assms(4)
  by (simp add: get_state_def move_to_def get_firmware_version_def invalid_status_msg_def
      send_and_read_open [OF assms(1-3)] split: option.splits)

theorem get_state_returns_raw_witness:
  "serial_port (open_port (''foobar'' @ [newline]) new_client) =
       Some \<lparr>is_open = True, write_calls = [], in_buf = ''foobar'' @ [newline]\<rparr>
   \<and> split_line (''foobar'' @ [newline]) = (''foobar'' @ [newline], [])
   \<and> utf8_valid (''foobar'' @ [newline])
   \<and> search_firmware (''foobar'' @ [newline]) = None
   \<and> get_state (open_port (''foobar'' @ [newline]) new_client) =
       (Inr (''foobar'' @ [newline]),
        \<lparr>serial_port = Some \<lparr>is_open = True, write_calls = [''M4000''], in_buf = []\<rparr>\<rparr>)
   \<and> move_to (open_port (''foobar'' @ [newline]) new_client) (Float False 0x402 0x4000000000000) =
       (Inr (''foobar'' @ [newline]),
        \<lparr>serial_port = Some \<lparr>is_open = True, write_calls = [''G0 Z10.0''], in_buf = []\<rparr>\<rparr>)
   \<and> get_firmware_version (open_port (''foobar'' @ [newline]) new_client) =
       (Inl (AssertionError ''Received invalid status response from printer''),
        \<lparr>serial_port = Some \<lparr>is_open = True, write_calls = [''M4002''], in_buf = []\<rparr>\<rparr>)"
proof -
  have s: "serial_port (open_port (''foobar'' @ [newline]) new_client) =
       Some \<lparr>is_open = True, write_calls = [], in_buf = ''foobar'' @ [newline]\<rparr>"
    by (simp add: open_port_def new_client_def)
  have o: "is_open \<lparr>is_open = True, write_calls = [], in_buf = ''foobar'' @ [newline]\<rparr>"
    by simp
  have l: "split_line (in_buf \<lparr>is_open = True, write_calls = [], in_buf = ''foobar'' @ [newline]\<rparr>)
      = (''foobar'' @ [newline], [])"
    by (simp add: newline_def)
  have v: "utf8_valid (''foobar'' @ [newline])"
    by (simp add: newline_def byte_def)
  have f: "search_firmware (''foobar'' @ [newline]) = None"
    by (simp add: search_firmware_def)
  have z: "format_1f (Float False 0x402 0x4000000000000) = ''10.0''"
    by (simp add: format_1f_def is_finite_def numer_def denom_def significand_def exponent_def
        round_half_even_def Let_def str_nat.simps digit_char_def)
  show ?thesis
    using s l v f get_state_returns_raw [OF s o l v, of "Float False 0x402 0x4000000000000"]
    by (simp add: open_port_def new_client_def z)
qed

text \<open>
  Claim C5 as stated fails: the reply line \<open>foobar\<close> is no \<open>ok\<close> line, and \<open>get_state\<close>
  returns it instead of raising; so does \<open>move_to\<close>.
\<close>

theorem get_state_counterexample:
  "fst (get_state (open_port (''foobar'' @ [newline]) new_client)) = Inr (''foobar'' @ [newline])
   \<and> fst (move_to (open_port (''foobar'' @ [newline]) new_client) (Float False 0x402 0x4000000000000))
       = Inr (''foobar'' @ [newline])"
  by (simp add: get_state_def move_to_def send_and_read_def open_port_def new_client_def
      serial_write_def serial_readline_def decode_utf8_def newline_def byte_def)

section \<open>Timeouts and undecodable replies\<close>

text \<open>
  Claim C6, as amended. An exchange whose read times out (no newline arrives) raises no
  failure of its own: it returns the text of the bytes that did arrive, the empty text
  when there were none and the partial line otherwise, provided they decode. The failure
  of the read path is the one of decoding: a reply line that is not well-formed UTF-8
  raises \<open>UnicodeDecodeError\<close>.
\<close>

theorem exchange_timeout:
  assumes "serial_port c = Some p" "is_open p"
  shows "(newline \<notin> set (in_buf p) \<longrightarrow>
            send_and_read c d =
              (if utf8_valid (in_buf p) then Inr (in_buf p) else Inl UnicodeDecodeError,
               c\<lparr>serial_port := Some (p\<lparr>write_calls := write_calls p @ [d], in_buf := []\<rparr>)\<rparr>))
       \<and> (in_buf p = [] \<longrightarrow> fst (send_and_read c d) = Inr [])
       \<and> (\<not> utf8_valid (fst (split_line (in_buf p))) \<longrightarrow>
            fst (send_and_read c d) = Inl UnicodeDecodeError)"
proof (intro conjI impI)
  assume "newline \<notin> set (in_buf p)"
  then have "split_line (in_buf p) = (in_buf p, [])"
    by (rule split_line_no_newline)
  from send_and_read_open [OF assms this]
  show "send_and_read c d =
              (if utf8_valid (in_buf p) then Inr (in_buf p) else Inl UnicodeDecodeError,
               c\<lparr>serial_port := Some (p\<lparr>write_calls := write_calls p @ [d], in_buf := []\<rparr>)\<rparr>)" .
next
  assume "in_buf p = []"
  then have "split_line (in_buf p) = ([], [])"
    by simp
  from send_and_read_open [OF assms this]
  show "fst (send_and_read c d) = Inr []"
    by simp
next
  assume bad: "\<not> utf8_valid (fst (split_line (in_buf p)))"
  obtain l r where lr: "split_line (in_buf p) = (l, r)"
    by (cases "split_line (in_buf p)")
  from send_and_read_open [OF assms lr] bad lr
  show "fst (send_and_read c d) = Inl UnicodeDecodeError"
    by simp
qed

theorem exchange_timeout_witness:
  "fst (send_and_read (open_port [] new_client) ''M4000'') = Inr []
   \<and> newline \<notin> set ''ok B:0/0 X:0.000''
   \<and> fst (send_and_read (open_port ''ok B:0/0 X:0.000'' new_client) ''M4000'') = Inr ''ok B:0/0 X:0.000''
   \<and> \<not> utf8_valid (fst (split_line [CHR 0xFF, newline]))
   \<and> fst (send_and_read (open_port [CHR 0xFF, newline] new_client) ''M4000'') = Inl UnicodeDecodeError"
proof -
  have s: "serial_port (open_port dev new_client) = Some \<lparr>is_open = True, write_calls = [], in_buf = dev\<rparr>"
    for dev
    by (simp add: open_port_def new_client_def)
  have o: "is_open \<lparr>is_open = True, write_calls = [], in_buf = dev\<rparr>" for dev
    by simp
  have n: "newline \<notin> set ''ok B:0/0 X:0.000''"
    by (simp add: newline_def)
  have v: "utf8_valid ''ok B:0/0 X:0.000''"
    by (simp add: byte_def)
  have b: "\<not> utf8_valid (fst (split_line [CHR 0xFF, newline]))"
    by (simp add: newline_def byte_def between_def)
  show ?thesis
    using n v b exchange_timeout [OF s o, of "[]" "''M4000''"]
      exchange_timeout [OF s o, of "''ok B:0/0 X:0.000''" "''M4000''"]
      exchange_timeout [OF s o, of "[CHR 0xFF, newline]" "''M4000''"]
    by simp
qed

text \<open>
  Claim C6 as stated fails: with zero bytes received the exchange returns the empty text,
  and with a partial line it returns the partial text; neither raises.
\<close>

theorem exchange_timeout_counterexample:
  "fst (send_and_read (open_port [] new_client) ''M4000'') = Inr []
   \<and> fst (send_and_read (open_port ''ok B:0/0'' new_client) ''M4000'') = Inr ''ok B:0/0''"
  by (simp add: send_and_read_def open_port_def new_client_def serial_write_def
      serial_readline_def decode_utf8_def newline_def byte_def)

section \<open>Decimal digits\<close>







section \<open>The print status\<close>

























section \<open>Relative moves\<close>




















section \<open>Defaults of the configuration\<close>

lemma no_file_no_filename:
  assumes "\<forall>p\<in>set potential_paths. \<not> exists_not_dir fs cwd p"
  shows "get_config_filename fs cwd = None"
proof -
  have "filter (exists_not_dir fs cwd) potential_paths = []"
    using assms by (simp add: filter_empty_conv)
  then show ?thesis
    by (simp add: get_config_filename_def)
qed

text \<open>What \<open>Path\<close> does to a configured files directory.\<close>

lemma posix_path_examples:
  "posix_path ''/mnt/usb_share'' = ''/mnt/usb_share''"
  "posix_path ''/srv/files/'' = ''/srv/files''"
  "posix_path [] = ''.''"
  "posix_path ''//a/./b//'' = ''//a/b''"
  "posix_path ''///a/..'' = ''/a/..''"
  by (simp_all add: posix_path_def path_root_def)

lemma defaults_of_empty:
  "get_files_directory B [] = ''/mnt/usb_share''"
  "get_printer_display_name B [] = None"
  "get_printer_serial_port B [] = ''/dev/serial0''"
  "get_printer_baudrate B [] = Inr 115200"
  "get_relay_pin B [] = Inr None"
  "get_relay_initial_value B [] = Inr None"
  "get_relay_active_high B [] = None"
  "get_http_host B [] = ''0.0.0.0''"
  "get_http_port B [] = Inr 5050"
  "get_cache_directory B [] = ''/tmp/mariner/''"
  "get_ha_srv B [] = Inr None"
  "get_ha_usr B [] = Inr None"
  "get_ha_pass B [] = Inr None"
  "get_ha_topic B [] = Inr None"
  by (simp_all add: get_files_directory_def get_printer_display_name_def
      get_printer_serial_port_def get_printer_baudrate_def get_relay_pin_def
      get_relay_initial_value_def get_relay_active_high_def get_http_host_def
      get_http_port_def get_cache_directory_def get_ha_srv_def get_ha_usr_def
      get_ha_pass_def get_ha_topic_def get_or_def py_str_def posix_path_def path_root_def)

lemma malformed_printer:
  assumes "map_of config ''printer'' = Some v" "\<forall>kvs. v \<noteq> TTable kvs"
  shows "get_printer_display_name B config = None"
    "get_printer_serial_port B config = ''/dev/serial0''"
    "get_printer_baudrate B config = Inr 115200"
  using assms
  by (cases v; simp add: get_printer_display_name_def get_printer_serial_port_def
      get_printer_baudrate_def py_str_def)+

lemma malformed_relay_board:
  assumes "map_of config ''relay_board'' = Some v" "\<forall>kvs. v \<noteq> TTable kvs"
  shows "get_relay_pin B config = Inr None"
    "get_relay_initial_value B config = Inr None"
    "get_relay_active_high B config = None"
  using assms
  by (cases v; simp add: get_relay_pin_def get_relay_initial_value_def
      get_relay_active_high_def)+

lemma malformed_http:
  assumes "map_of config ''http'' = Some v" "\<forall>kvs. v \<noteq> TTable kvs"
  shows "get_http_host B config = ''0.0.0.0''" "get_http_port B config = Inr 5050"
  using assms
  by (cases v; simp add: get_http_host_def get_http_port_def py_str_def)+

lemma malformed_cache:
  assumes "map_of config ''cache'' = Some v" "\<forall>kvs. v \<noteq> TTable kvs"
  shows "get_cache_directory B config = ''/tmp/mariner/''"
  using assms
  by (cases v; simp add: get_cache_directory_def py_str_def)

lemma malformed_homeassistant:
  assumes "map_of config ''homeassistant'' = Some v" "\<forall>kvs. v \<noteq> TTable kvs"
  shows "get_ha_srv B config = Inr None" "get_ha_usr B config = Inr None"
    "get_ha_pass B config = Inr None" "get_ha_topic B config = Inr None"
  using assms
  by (cases v; simp add: get_ha_srv_def get_ha_usr_def get_ha_pass_def get_ha_topic_def)+

text \<open>
  Claim C8. When none of the three candidate paths is an existing non-directory, the
  configuration is the empty table, and on the empty table every getter returns its
  default: the serial port is \<open>/dev/serial0\<close>, the baud rate 115200, the files directory
  \<open>/mnt/usb_share\<close>, the host \<open>0.0.0.0\<close>, the port 5050, the cache directory
  \<open>/tmp/mariner/\<close>, and the display name, the relay settings and the home-assistant
  settings are \<open>None\<close>. When a section is present and is not a table, the getters of that
  section return the same defaults and do not raise.
\<close>

theorem config_defaults:
  "((\<forall>p\<in>set potential_paths. \<not> exists_not_dir fs cwd p) \<longrightarrow>
       get_config loads fs cwd = Inr [])
   \<and> get_files_directory B [] = ''/mnt/usb_share''
   \<and> get_printer_display_name B [] = None
   \<and> get_printer_serial_port B [] = ''/dev/serial0''
   \<and> get_printer_baudrate B [] = Inr 115200
   \<and> get_relay_pin B [] = Inr None
   \<and> get_relay_initial_value B [] = Inr None
   \<and> get_relay_active_high B [] = None
   \<and> get_http_host B [] = ''0.0.0.0''
   \<and> get_http_port B [] = Inr 5050
   \<and> get_cache_directory B [] = ''/tmp/mariner/''
   \<and> get_ha_srv B [] = Inr None \<and> get_ha_usr B [] = Inr None
   \<and> get_ha_pass B [] = Inr None \<and> get_ha_topic B [] = Inr None
   \<and> (map_of config ''printer'' = Some v \<and> (\<forall>kvs. v \<noteq> TTable kvs) \<longrightarrow>
        get_printer_display_name B config = None
        \<and> get_printer_serial_port B config = ''/dev/serial0''
        \<and> get_printer_baudrate B config = Inr 115200)
   \<and> (map_of config ''relay_board'' = Some v \<and> (\<forall>kvs. v \<noteq> TTable kvs) \<longrightarrow>
        get_relay_pin B config = Inr None
        \<and> get_relay_initial_value B config = Inr None
        \<and> get_relay_active_high B config = None)
   \<and> (map_of config ''http'' = Some v \<and> (\<forall>kvs. v \<noteq> TTable kvs) \<longrightarrow>
        get_http_host B config = ''0.0.0.0'' \<and> get_http_port B config = Inr 5050)
   \<and> (map_of config ''cache'' = Some v \<and> (\<forall>kvs. v \<noteq> TTable kvs) \<longrightarrow>
        get_cache_directory B config = ''/tmp/mariner/'')
   \<and> (map_of config ''homeassistant'' = Some v \<and> (\<forall>kvs. v \<noteq> TTable kvs) \<longrightarrow>
        get_ha_srv B config = Inr None \<and> get_ha_usr B config = Inr None
        \<and> get_ha_pass B config = Inr None \<and> get_ha_topic B config = Inr None)"
proof -
  have "(\<forall>p\<in>set potential_paths. \<not> exists_not_dir fs cwd p) \<longrightarrow>
       get_config loads fs cwd = Inr []"
    by (simp add: get_config_def no_file_no_filename)
  then show ?thesis
    using defaults_of_empty [of B] malformed_printer [of config v B]
      malformed_relay_board [of config v B] malformed_http [of config v B]
      malformed_cache [of config v B] malformed_homeassistant [of config v B]
    by blast
qed

theorem config_defaults_witness:
  "\<forall>B loads.
     get_config loads (\<lambda>p. if p = ''/etc/mariner/config.toml'' then Some Directory else None)
       ''/home/pi'' = Inr []
     \<and> get_printer_serial_port B [] = ''/dev/serial0''
     \<and> get_printer_baudrate B [] = Inr 115200
     \<and> map_of [(''printer'', TStr ''usb'')] ''printer'' = Some (TStr ''usb'')
     \<and> get_printer_serial_port B [(''printer'', TStr ''usb'')] = ''/dev/serial0''
     \<and> get_printer_baudrate B [(''printer'', TStr ''usb'')] = Inr 115200
     \<and> get_printer_display_name B [(''printer'', TStr ''usb'')] = None"
proof (intro allI)
  fix B loads
  let ?fs = "\<lambda>p. if p = ''/etc/mariner/config.toml'' then Some Directory else None"
  have none: "\<forall>p\<in>set potential_paths. \<not> exists_not_dir ?fs ''/home/pi'' p"
    by (simp add: potential_paths_def exists_not_dir_def absolute_def)
  have m: "map_of [(''printer'', TStr ''usb'')] ''printer'' = Some (TStr ''usb'')"
    by simp
  have t: "\<forall>kvs. TStr ''usb'' \<noteq> TTable kvs"
    by simp
  show "get_config loads ?fs ''/home/pi'' = Inr []
     \<and> get_printer_serial_port B [] = ''/dev/serial0''
     \<and> get_printer_baudrate B [] = Inr 115200
     \<and> map_of [(''printer'', TStr ''usb'')] ''printer'' = Some (TStr ''usb'')
     \<and> get_printer_serial_port B [(''printer'', TStr ''usb'')] = ''/dev/serial0''
     \<and> get_printer_baudrate B [(''printer'', TStr ''usb'')] = Inr 115200
     \<and> get_printer_display_name B [(''printer'', TStr ''usb'')] = None"
    using none m t
      config_defaults [where fs = ?fs and cwd = "''/home/pi''" and loads = loads and B = B
        and config = "[(''printer'', TStr ''usb'')]" and v = "TStr ''usb''"]
    by blast
qed

section \<open>The home-assistant getters\<close>

text \<open>
  Claim C9 says that \<open>get_ha_srv\<close>, \<open>get_ha_usr\<close>, \<open>get_ha_pass\<close> and \<open>get_ha_topic\<close>
  read \<open>address\<close>, \<open>user\<close>, \<open>password\<close> and \<open>topic\<close> from a \<open>homeassistant\<close> section
  that is a table, and return the value as a string or \<open>None\<close>. The source does not reach
  that: whenever the section is a table, each of the four raises \<open>NameError\<close> for
  \<open>printer_config\<close>, whatever the section holds.
\<close>

theorem home_assistant_getters_raise:
  assumes "map_of config ''homeassistant'' = Some (TTable ha_config)"
  shows "get_ha_srv B config = Inl (NameError ''printer_config'')
       \<and> get_ha_usr B config = Inl (NameError ''printer_config'')
       \<and> get_ha_pass B config = Inl (NameError ''printer_config'')
       \<and> get_ha_topic B config = Inl (NameError ''printer_config'')"
  using assms by (simp add: get_ha_srv_def get_ha_usr_def get_ha_pass_def get_ha_topic_def)

theorem home_assistant_getters_raise_witness:
  "\<forall>B. map_of [(''homeassistant'', TTable [(''address'', TStr ''10.0.0.2'')])] ''homeassistant''
         = Some (TTable [(''address'', TStr ''10.0.0.2'')])
       \<and> get_ha_srv B [(''homeassistant'', TTable [(''address'', TStr ''10.0.0.2'')])]
         = Inl (NameError ''printer_config'')
       \<and> get_ha_usr B [(''homeassistant'', TTable [(''address'', TStr ''10.0.0.2'')])]
         = Inl (NameError ''printer_config'')"
proof (intro allI)
  fix B
  have m: "map_of [(''homeassistant'', TTable [(''address'', TStr ''10.0.0.2'')])] ''homeassistant''
         = Some (TTable [(''address'', TStr ''10.0.0.2'')])"
    by simp
  show "map_of [(''homeassistant'', TTable [(''address'', TStr ''10.0.0.2'')])] ''homeassistant''
         = Some (TTable [(''address'', TStr ''10.0.0.2'')])
       \<and> get_ha_srv B [(''homeassistant'', TTable [(''address'', TStr ''10.0.0.2'')])]
         = Inl (NameError ''printer_config'')
       \<and> get_ha_usr B [(''homeassistant'', TTable [(''address'', TStr ''10.0.0.2'')])]
         = Inl (NameError ''printer_config'')"
    using m home_assistant_getters_raise [OF m, of B] by blast
qed

section \<open>The relay getters\<close>

lemma relay_section_table:
  assumes "map_of config ''relay_board'' = Some (TTable rb)"
  shows "get_relay_pin B config = map_sum id Some (py_int B (map_of rb ''relay_pin''))"
    "get_relay_initial_value B config = map_sum id Some (py_int B (map_of rb ''initial_value''))"
    "get_relay_active_high B config = Some (py_bool B (map_of rb ''active_high''))"
  using assms
  by (simp_all add: get_relay_pin_def get_relay_initial_value_def get_relay_active_high_def)

lemma relay_section_other:
  assumes "\<nexists>rb. map_of config ''relay_board'' = Some (TTable rb)"
  shows "get_relay_pin B config = Inr None" "get_relay_initial_value B config = Inr None"
    "get_relay_active_high B config = None"
  using assms
  by (auto simp: get_relay_pin_def get_relay_initial_value_def get_relay_active_high_def
      split: option.splits toml.splits)

lemma map_sum_Some_not_None: "map_sum id Some x \<noteq> Inr None"
  by (cases x) simp_all

text \<open>
  Claim C10. When the \<open>relay_board\<close> section is a table without the key, \<open>get_relay_pin\<close>
  and \<open>get_relay_initial_value\<close> raise \<open>TypeError\<close> (\<open>int\<close> applied to \<open>None\<close>) and
  \<open>get_relay_active_high\<close> returns \<open>False\<close>. Each of the three returns \<open>None\<close> exactly
  when the section is absent or is not a table.
\<close>

theorem relay_getters_missing_key:
  "(map_of config ''relay_board'' = Some (TTable rb) \<and> map_of rb ''relay_pin'' = None \<longrightarrow>
      get_relay_pin B config = Inl TypeError)
   \<and> (map_of config ''relay_board'' = Some (TTable rb) \<and> map_of rb ''initial_value'' = None \<longrightarrow>
      get_relay_initial_value B config = Inl TypeError)
   \<and> (map_of config ''relay_board'' = Some (TTable rb) \<and> map_of rb ''active_high'' = None \<longrightarrow>
      get_relay_active_high B config = Some False)
   \<and> (get_relay_pin B config = Inr None \<longleftrightarrow>
        (\<nexists>t. map_of config ''relay_board'' = Some (TTable t)))
   \<and> (get_relay_initial_value B config = Inr None \<longleftrightarrow>
        (\<nexists>t. map_of config ''relay_board'' = Some (TTable t)))
   \<and> (get_relay_active_high B config = None \<longleftrightarrow>
        (\<nexists>t. map_of config ''relay_board'' = Some (TTable t)))"
proof (intro conjI impI)
  assume "map_of config ''relay_board'' = Some (TTable rb) \<and> map_of rb ''relay_pin'' = None"
  then show "get_relay_pin B config = Inl TypeError"
    by (simp add: relay_section_table py_int_def)
next
  assume "map_of config ''relay_board'' = Some (TTable rb) \<and> map_of rb ''initial_value'' = None"
  then show "get_relay_initial_value B config = Inl TypeError"
    by (simp add: relay_section_table py_int_def)
next
  assume "map_of config ''relay_board'' = Some (TTable rb) \<and> map_of rb ''active_high'' = None"
  then show "get_relay_active_high B config = Some False"
    by (simp add: relay_section_table py_bool_def)
next
  show "get_relay_pin B config = Inr None \<longleftrightarrow>
        (\<nexists>t. map_of config ''relay_board'' = Some (TTable t))"
    using relay_section_table(1) [of config _ B] relay_section_other(1) [of config B]
      map_sum_Some_not_None by metis
next
  show "get_relay_initial_value B config = Inr None \<longleftrightarrow>
        (\<nexists>t. map_of config ''relay_board'' = Some (TTable t))"
    using relay_section_table(2) [of config _ B] relay_section_other(2) [of config B]
      map_sum_Some_not_None by metis
next
  show "get_relay_active_high B config = None \<longleftrightarrow>
        (\<nexists>t. map_of config ''relay_board'' = Some (TTable t))"
    using relay_section_table(3) [of config _ B] relay_section_other(3) [of config B]
    by (metis option.distinct(1))
qed

theorem relay_getters_missing_key_witness:
  "\<forall>B. map_of [(''relay_board'', TTable [(''name'', TStr ''hat'')])] ''relay_board''
          = Some (TTable [(''name'', TStr ''hat'')])
       \<and> map_of [(''name'', TStr ''hat'')] ''relay_pin'' = None
       \<and> get_relay_pin B [(''relay_board'', TTable [(''name'', TStr ''hat'')])] = Inl TypeError
       \<and> get_relay_initial_value B [(''relay_board'', TTable [(''name'', TStr ''hat'')])]
          = Inl TypeError
       \<and> get_relay_active_high B [(''relay_board'', TTable [(''name'', TStr ''hat'')])]
          = Some False
       \<and> get_relay_pin B [] = Inr None
       \<and> get_relay_active_high B [(''relay_board'', TInt 4)] = None"
proof (intro allI)
  fix B
  have m: "map_of [(''relay_board'', TTable [(''name'', TStr ''hat'')])] ''relay_board''
          = Some (TTable [(''name'', TStr ''hat'')])"
    "map_of [(''name'', TStr ''hat'')] ''relay_pin'' = None"
    "map_of [(''name'', TStr ''hat'')] ''initial_value'' = None"
    "map_of [(''name'', TStr ''hat'')] ''active_high'' = None"
    by simp_all
  have n: "\<nexists>t. map_of [] ''relay_board'' = Some (TTable t)"
    "\<nexists>t. map_of [(''relay_board'', TInt 4)] ''relay_board'' = Some (TTable t)"
    by simp_all
  show "map_of [(''relay_board'', TTable [(''name'', TStr ''hat'')])] ''relay_board''
          = Some (TTable [(''name'', TStr ''hat'')])
       \<and> map_of [(''name'', TStr ''hat'')] ''relay_pin'' = None
       \<and> get_relay_pin B [(''relay_board'', TTable [(''name'', TStr ''hat'')])] = Inl TypeError
       \<and> get_relay_initial_value B [(''relay_board'', TTable [(''name'', TStr ''hat'')])]
          = Inl TypeError
       \<and> get_relay_active_high B [(''relay_board'', TTable [(''name'', TStr ''hat'')])]
          = Some False
       \<and> get_relay_pin B [] = Inr None
       \<and> get_relay_active_high B [(''relay_board'', TInt 4)] = None"
    using m n
      relay_getters_missing_key [where B = B and rb = "[(''name'', TStr ''hat'')]"
        and config = "[(''relay_board'', TTable [(''name'', TStr ''hat'')])]"]
      relay_getters_missing_key [where B = B and config = "[]"]
      relay_getters_missing_key [where B = B and config = "[(''relay_board'', TInt 4)]"]
    by blast
qed

end
